theory Spec2Isabelle
  imports Main "HOL-Library.AList" "HOL-Library.Sublist"
begin

section \<open>Values shared by the client's operations\<close>

text \<open>
  The Go package \<^verbatim>\<open>api\<close> is embedded operation by operation. A Go call ends in one
  of three ways: a run-time panic (an index out of range, a nil dereference), an
  \<^verbatim>\<open>error\<close> value, or a normal return.
\<close>

type_synonym bytes = string

datatype ('e, 'a) outcome = Panic | Failed 'e | Ok 'a

text \<open>
  Modelled from the spec: the structured error \<^verbatim>\<open>types.Error\<close> of package
  \<^verbatim>\<open>types/v100\<close>, which is not among the sources. The spec gives its shape as a status
  code, a message and further vendor fields; the vendor fields are the record's extension.
\<close>

record Error =
  HTTPStatusCode :: int
  Message :: string

text \<open>
  Go's \<^verbatim>\<open>error\<close> values as far as the client tells them apart: its own two sentinels, the
  error of a rejected certificate, \<^verbatim>\<open>io.EOF\<close>, any other error a library call hands
  back, and the structured error.
\<close>

datatype 'z go_error =
    errNewClient
  | errSysCerts
  | errAppendCert
  | EOF
  | LibError string
  | HTTPError "'z Error_scheme"

definition HeaderKeyContentType :: string where
  "HeaderKeyContentType = ''Content-Type''"

definition HeaderValContentTypeJSON :: string where
  "HeaderValContentTypeJSON = ''application/json''"

definition headerValContentTypeBinaryOctetStream :: string where
  "headerValContentTypeBinaryOctetStream = ''binary/octet-stream''"

section \<open>The header type of net/http\<close>

text \<open>
  \<^verbatim>\<open>http.Header\<close> is a \<^verbatim>\<open>map[string][]string\<close> whose methods \<^verbatim>\<open>Set\<close>, \<^verbatim>\<open>Add\<close> and
  \<^verbatim>\<open>Get\<close> first bring the key into canonical form
  (\<^verbatim>\<open>textproto.CanonicalMIMEHeaderKey\<close>): a key made of token bytes only gets an upper-case
  first letter and an upper-case letter after each hyphen, every other letter in lower
  case; a key with any other byte is left as it is.
\<close>

definition lowerLetters :: string where
  "lowerLetters = ''abcdefghijklmnopqrstuvwxyz''"

definition upperLetters :: string where
  "upperLetters = ''ABCDEFGHIJKLMNOPQRSTUVWXYZ''"

definition validHeaderFieldByte :: "char \<Rightarrow> bool" where
  "validHeaderFieldByte c =
     (c \<in> set (lowerLetters @ upperLetters @ ''0123456789'' @ ''!#$%&*+-.^_|~''
                @ [CHR 0x27, CHR 0x60]))"

definition canonByte :: "bool \<Rightarrow> char \<Rightarrow> char" where
  "canonByte upper c =
     (if upper
      then (case map_of (zip lowerLetters upperLetters) c of Some u \<Rightarrow> u | None \<Rightarrow> c)
      else (case map_of (zip upperLetters lowerLetters) c of Some l \<Rightarrow> l | None \<Rightarrow> c))"

fun canonicalMIMEHeaderKey :: "bool \<Rightarrow> string \<Rightarrow> string" where
  "canonicalMIMEHeaderKey upper [] = []"
| "canonicalMIMEHeaderKey upper (c # cs) =
     canonByte upper c # canonicalMIMEHeaderKey (canonByte upper c = CHR ''-'') cs"

definition CanonicalMIMEHeaderKey :: "string \<Rightarrow> string" where
  "CanonicalMIMEHeaderKey s =
     (if list_all validHeaderFieldByte s then canonicalMIMEHeaderKey True s else s)"

type_synonym http_Header = "string \<rightharpoonup> string list"

definition Header_Set :: "http_Header \<Rightarrow> string \<Rightarrow> string \<Rightarrow> http_Header" where
  "Header_Set h key v = h(CanonicalMIMEHeaderKey key \<mapsto> [v])"

definition Header_Add :: "http_Header \<Rightarrow> string \<Rightarrow> string \<Rightarrow> http_Header" where
  "Header_Add h key v =
     h(CanonicalMIMEHeaderKey key \<mapsto>
         (case h (CanonicalMIMEHeaderKey key) of None \<Rightarrow> [] | Some vs \<Rightarrow> vs) @ [v])"

definition Header_Get :: "http_Header \<Rightarrow> string \<Rightarrow> string" where
  "Header_Get h key =
     (case h (CanonicalMIMEHeaderKey key) of
        None \<Rightarrow> []
      | Some [] \<Rightarrow> []
      | Some (v # vs) \<Rightarrow> v)"

section \<open>Requests, responses, bodies\<close>

record Request =
  Method :: string
  URL :: string
  Header :: http_Header
  ReqBody :: "bytes option"

record Response =
  StatusCode :: int
  Status :: string
  Body :: bytes

text \<open>
  A request body is an \<^verbatim>\<open>interface{}\<close>: nil, an \<^verbatim>\<open>io.ReadCloser\<close> (the bytes it will
  yield), or any other value. Either kind of non-nil body may have a method
  \<^verbatim>\<open>MetaData() http.Header\<close>; the second component is \<open>None\<close> when it has none and the
  header it returns otherwise, as the list of its entries.
\<close>

datatype 'v body =
    NilBody
  | ReadCloser bytes "(string \<times> string list) list option"
  | Value 'v "(string \<times> string list) list option"

fun MetaData :: "'v body \<Rightarrow> (string \<times> string list) list option" where
  "MetaData NilBody = None"
| "MetaData (ReadCloser r md) = md"
| "MetaData (Value v md) = md"

section \<open>Construction\<close>

record ClientOptions =
  Insecure :: bool
  UseCerts :: bool
  Timeout :: int
  ShowHTTP :: bool
  CertFile :: string

record 'p tls_Config =
  RootCAs :: "'p option"
  InsecureSkipVerify :: bool

record 'p http_Client =
  Transport :: "'p tls_Config option"
  Client_Timeout :: int

record 'p client =
  http :: "'p http_Client"
  host :: string
  token :: string
  showHTTP :: bool
  debug :: bool

text \<open>
  What \<^verbatim>\<open>New\<close> asks of the platform: the system certificate pool, the contents of a
  file, and the result of appending PEM data to a pool (the flag and the pool afterwards).
\<close>

record ('p, 'z) sys =
  x509_SystemCertPool :: "'z go_error + 'p"
  os_ReadFile :: "string \<Rightarrow> 'z go_error + bytes"
  AppendCertsFromPEM :: "'p \<Rightarrow> bytes \<Rightarrow> bool \<times> 'p"

text \<open>\<^verbatim>\<open>strings.Replace(s, old, new, 1)\<close> for a non-empty \<^verbatim>\<open>old\<close>.\<close>

fun strings_Replace1 :: "string \<Rightarrow> string \<Rightarrow> string \<Rightarrow> string" where
  "strings_Replace1 [] old new = []"
| "strings_Replace1 (c # cs) old new =
     (if prefix old (c # cs) then new @ drop (length old) (c # cs)
      else c # strings_Replace1 cs old new)"

text \<open>Lines 193 to 199 of \<^verbatim>\<open>New\<close>: the two flags, then the client is returned.\<close>

definition New_flags ::
  "ClientOptions \<Rightarrow> bool \<Rightarrow> 'p client \<Rightarrow> ('z go_error, 'p client) outcome" where
  "New_flags opts debug0 c =
     Ok ((if ShowHTTP opts then c\<lparr>showHTTP := True\<rparr> else c)\<lparr>debug := debug0\<rparr>)"

definition New ::
  "('p, 'z) sys \<Rightarrow> string \<Rightarrow> ClientOptions \<Rightarrow> bool \<Rightarrow> ('z go_error, 'p client) outcome" where
  "New sy host0 opts debug0 =
     (if host0 = [] then Failed errNewClient
      else
        let h = strings_Replace1 host0 ''/api'' [];
            c0 = \<lparr>http = \<lparr>Transport = None, Client_Timeout = 0\<rparr>, host = h, token = [],
                  showHTTP = False, debug = False\<rparr>;
            c = (if Timeout opts \<noteq> 0
                 then c0\<lparr>http := (http c0)\<lparr>Client_Timeout := Timeout opts\<rparr>\<rparr> else c0)
        in
          if Insecure opts
          then New_flags opts debug0
                 (c\<lparr>http := (http c)\<lparr>Transport :=
                        Some \<lparr>RootCAs = None, InsecureSkipVerify = True\<rparr>\<rparr>\<rparr>)
          else
            (case x509_SystemCertPool sy of
               Inl e \<Rightarrow> Failed errSysCerts
             | Inr pool \<Rightarrow>
                 if CertFile opts \<noteq> []
                 then
                   (case os_ReadFile sy (CertFile opts) of
                      Inl e \<Rightarrow> Failed e
                    | Inr revProxyCert \<Rightarrow>
                        (case AppendCertsFromPEM sy pool revProxyCert of
                           (ok, pool') \<Rightarrow>
                             if \<not> ok then Failed errAppendCert
                             else New_flags opts debug0
                                    (c\<lparr>http := (http c)\<lparr>Transport :=
                                       Some \<lparr>RootCAs = Some pool',
                                             InsecureSkipVerify = False\<rparr>\<rparr>\<rparr>)))
                 else New_flags opts debug0
                        (c\<lparr>http := (http c)\<lparr>Transport :=
                           Some \<lparr>RootCAs = Some pool, InsecureSkipVerify = False\<rparr>\<rparr>\<rparr>)))"

section \<open>The libraries and the network\<close>

text \<open>
  What a call asks of Go's libraries and of the network, as functions the model takes as
  given: \<^verbatim>\<open>url.Parse\<close> followed by \<^verbatim>\<open>String\<close>; the bytes
  \<^verbatim>\<open>json.Encoder.Encode\<close> writes for a value, or its error; the effect of decoding a
  JSON value from a non-blank stream into a destination (the error, if any, and the
  destination afterwards), for a caller's destination and for the structured error; the
  zero value of the structured error's vendor fields; the error \<^verbatim>\<open>http.NewRequest\<close>
  returns, if any, for a method and a URL; \<^verbatim>\<open>http.StatusText\<close>; the base64 encoding
  used by \<^verbatim>\<open>SetBasicAuth\<close>; and the exchange itself, \<^verbatim>\<open>http.Client.Do\<close>, which
  yields a transport error or a response.
\<close>

record ('v, 'r, 'z, 'p) env =
  url_Parse :: "string \<Rightarrow> 'z go_error + string"
  json_Encode :: "'v \<Rightarrow> 'z go_error + bytes"
  json_Unmarshal :: "bytes \<Rightarrow> 'r \<Rightarrow> 'z go_error option \<times> 'r"
  json_UnmarshalError :: "bytes \<Rightarrow> 'z Error_scheme \<Rightarrow> 'z go_error option \<times> 'z Error_scheme"
  zero_vendor :: 'z
  http_NewRequest :: "string \<Rightarrow> string \<Rightarrow> 'z go_error option"
  http_StatusText :: "int \<Rightarrow> string"
  base64_Encode :: "string \<Rightarrow> string"
  http_Do :: "'p http_Client \<Rightarrow> Request \<Rightarrow> 'z go_error + Response"

text \<open>
  \<^verbatim>\<open>json.Decoder.Decode\<close> on a stream: with nothing but white space left to read it
  returns \<^verbatim>\<open>io.EOF\<close> and does not touch the destination; otherwise it decodes the next
  value.
\<close>

definition json_isSpace :: "char \<Rightarrow> bool" where
  "json_isSpace c = (c \<in> set [CHR 0x20, CHR 0x09, CHR 0x0D, CHR 0x0A])"

definition Decoder_Decode ::
  "(bytes \<Rightarrow> 'd \<Rightarrow> 'z go_error option \<times> 'd) \<Rightarrow> bytes \<Rightarrow> 'd \<Rightarrow> 'z go_error option \<times> 'd" where
  "Decoder_Decode unmarshal b d =
     (if list_all json_isSpace b then (Some EOF, d) else unmarshal b d)"

section \<open>Building and sending a request\<close>

text \<open>Both index their argument without a length check: \<open>None\<close> is the panic.\<close>

definition beginsWithSlash :: "string \<Rightarrow> bool option" where
  "beginsWithSlash s = (case s of [] \<Rightarrow> None | c # cs \<Rightarrow> Some (c = CHR ''/''))"

definition endsWithSlash :: "string \<Rightarrow> bool option" where
  "endsWithSlash s = (if s = [] then None else Some (last s = CHR ''/''))"

text \<open>
  Lines 303 to 325 of \<^verbatim>\<open>DoAndGetResponseBody\<close>: the \<^verbatim>\<open>var\<close> block evaluates
  \<^verbatim>\<open>endsWithSlash(c.host)\<close> and \<^verbatim>\<open>beginsWithSlash(uri)\<close> before anything else, then
  the buffer \<^verbatim>\<open>ubf\<close> is filled. \<open>buildURL\<close> is \<^verbatim>\<open>ubf.String()\<close>, or \<open>None\<close> when one
  of the two calls panics.
\<close>

definition ubf_String :: "string \<Rightarrow> string \<Rightarrow> bool \<Rightarrow> bool \<Rightarrow> string" where
  "ubf_String h uri hostEndsWithSlash uriBeginsWithSlash =
     h @ (if \<not> hostEndsWithSlash \<and> length uri > 0 then ''/'' else [])
       @ (if length uri > 0 then (if uriBeginsWithSlash then drop 1 uri else uri) else [])"

definition buildURL :: "'p client \<Rightarrow> string \<Rightarrow> string option" where
  "buildURL c uri =
     (case endsWithSlash (host c) of
        None \<Rightarrow> None
      | Some hostEndsWithSlash \<Rightarrow>
          (case beginsWithSlash uri of
             None \<Rightarrow> None
           | Some uriBeginsWithSlash \<Rightarrow>
               Some (ubf_String (host c) uri hostEndsWithSlash uriBeginsWithSlash)))"

text \<open>
  The caller's header map is a \<^verbatim>\<open>map[string]string\<close>, possibly nil: \<open>None\<close> for nil,
  otherwise the list of its entries in the order a \<^verbatim>\<open>range\<close> visits them (Go fixes no
  order, and nothing below depends on it). The value
  chosen for \<^verbatim>\<open>Content-Type\<close> is the caller's entry under exactly that key, or the
  default of the body's encoding.
\<close>

definition contentTypeFor :: "(string \<times> string) list option \<Rightarrow> string \<Rightarrow> string" where
  "contentTypeFor headers dflt =
     (case headers of
        None \<Rightarrow> dflt
      | Some hs \<Rightarrow> (case map_of hs HeaderKeyContentType of Some v \<Rightarrow> v | None \<Rightarrow> dflt))"

text \<open>
  \<^verbatim>\<open>addMetaData\<close> assigns into the caller's map: the result is that map after the call.
\<close>

definition addMetaData ::
  "(string \<times> string) list option \<Rightarrow> 'v body \<Rightarrow> (string \<times> string) list option" where
  "addMetaData headers body =
     (case headers of
        None \<Rightarrow> None
      | Some hs \<Rightarrow>
          (case body of
             NilBody \<Rightarrow> Some hs
           | _ \<Rightarrow>
              (case MetaData body of
                 None \<Rightarrow> Some hs
               | Some md \<Rightarrow>
                   Some (fold (\<lambda>k m. AList.update k (Header_Get (map_of md) k) m)
                           (map fst md) hs))))"

text \<open>The loop of lines 372 to 377.\<close>

definition addHeaders :: "bool \<Rightarrow> (string \<times> string) list \<Rightarrow> Request \<Rightarrow> Request" where
  "addHeaders isContentTypeSet hs req =
     fold (\<lambda>(header, v) r.
             if header = HeaderKeyContentType \<and> isContentTypeSet then r
             else r\<lparr>Header := Header_Add (Header r) header v\<rparr>)
          hs req"

definition SetBasicAuth ::
  "('v, 'r, 'z, 'p) env \<Rightarrow> Request \<Rightarrow> string \<Rightarrow> string \<Rightarrow> Request" where
  "SetBasicAuth en req username password =
     req\<lparr>Header := Header_Set (Header req) ''Authorization''
                      (''Basic '' @ base64_Encode en (username @ '':'' @ password))\<rparr>"

text \<open>
  What a call to \<^verbatim>\<open>DoAndGetResponseBody\<close> leaves behind: what it returned, the caller's
  header map afterwards, the requests handed to the transport, and whether a stream body
  was closed.
\<close>

record 'z call =
  returned :: "('z go_error, Response) outcome"
  headers_after :: "(string \<times> string) list option"
  sent :: "Request list"
  stream_closed :: bool

text \<open>Lines 366 to 398: headers, token, the exchange. Logging is left out.\<close>

definition sendRequest ::
  "('v, 'r, 'z, 'p) env \<Rightarrow> 'p client \<Rightarrow> (string \<times> string) list option \<Rightarrow> 'v body \<Rightarrow>
     bool \<Rightarrow> bool \<Rightarrow> Request \<Rightarrow> 'z call" where
  "sendRequest en c headers body isContentTypeSet0 closed req =
     (let isContentTypeSet =
            (if \<not> isContentTypeSet0 then Header_Get (Header req) HeaderKeyContentType \<noteq> []
             else isContentTypeSet0);
          headers' = addMetaData headers body;
          req1 = addHeaders isContentTypeSet
                   (case headers' of None \<Rightarrow> [] | Some hs \<Rightarrow> hs) req;
          req2 = (if token c \<noteq> [] then SetBasicAuth en req1 [] (token c) else req1)
      in \<lparr>returned = (case http_Do en (http c) req2 of Inl e \<Rightarrow> Failed e | Inr res \<Rightarrow> Ok res),
          headers_after = headers', sent = [req2], stream_closed = closed\<rparr>)"

definition DoAndGetResponseBody ::
  "('v, 'r, 'z, 'p) env \<Rightarrow> 'p client \<Rightarrow> string \<Rightarrow> string \<Rightarrow>
     (string \<times> string) list option \<Rightarrow> 'v body \<Rightarrow> 'z call" where
  "DoAndGetResponseBody en c method uri headers body =
     (case buildURL c uri of
        None \<Rightarrow>
          \<lparr>returned = Panic, headers_after = headers, sent = [], stream_closed = False\<rparr>
      | Some s \<Rightarrow>
          (case url_Parse en s of
             Inl e \<Rightarrow>
               \<lparr>returned = Failed e, headers_after = headers, sent = [],
                stream_closed = False\<rparr>
           | Inr u \<Rightarrow>
               (case body of
                  ReadCloser r md \<Rightarrow>
                    (case http_NewRequest en method u of
                       Some e \<Rightarrow>
                         \<lparr>returned = Panic, headers_after = headers, sent = [],
                          stream_closed = True\<rparr>
                     | None \<Rightarrow>
                         sendRequest en c headers body True True
                           \<lparr>Method = method, URL = u,
                            Header = Header_Set Map.empty HeaderKeyContentType
                                       (contentTypeFor headers
                                          headerValContentTypeBinaryOctetStream),
                            ReqBody = Some r\<rparr>)
                | Value v md \<Rightarrow>
                    (case json_Encode en v of
                       Inl e \<Rightarrow>
                         \<lparr>returned = Failed e, headers_after = headers, sent = [],
                          stream_closed = False\<rparr>
                     | Inr buf \<Rightarrow>
                         (case http_NewRequest en method u of
                            Some e \<Rightarrow>
                              \<lparr>returned = Panic, headers_after = headers, sent = [],
                               stream_closed = False\<rparr>
                          | None \<Rightarrow>
                              sendRequest en c headers body True False
                                \<lparr>Method = method, URL = u,
                                 Header = Header_Set Map.empty HeaderKeyContentType
                                            (contentTypeFor headers HeaderValContentTypeJSON),
                                 ReqBody = Some buf\<rparr>))
                | NilBody \<Rightarrow>
                    (case http_NewRequest en method u of
                       Some e \<Rightarrow>
                         \<lparr>returned = Failed e, headers_after = headers, sent = [],
                          stream_closed = False\<rparr>
                     | None \<Rightarrow>
                         sendRequest en c headers body False False
                           \<lparr>Method = method, URL = u, Header = Map.empty,
                            ReqBody = None\<rparr>))))"

section \<open>Classifying the response\<close>

definition ParseJSONError :: "('v, 'r, 'z, 'p) env \<Rightarrow> Response \<Rightarrow> 'z Error_scheme" where
  "ParseJSONError en r =
     (case Decoder_Decode (json_UnmarshalError en) (Body r)
             \<lparr>HTTPStatusCode = 0, Message = [], \<dots> = zero_vendor en\<rparr> of
        (Some e, jsonError) \<Rightarrow>
          jsonError\<lparr>HTTPStatusCode := StatusCode r,
                    Message := http_StatusText en (StatusCode r)\<rparr>
      | (None, jsonError) \<Rightarrow>
          (let j = jsonError\<lparr>HTTPStatusCode := StatusCode r\<rparr>
           in if Message j = [] then j\<lparr>Message := Status r\<rparr> else j))"

text \<open>
  What a call to \<^verbatim>\<open>DoWithHeaders\<close> leaves behind: the error it returned, the decode
  destination afterwards, the record of the inner call, and whether the response body was
  closed.
\<close>

record ('r, 'z) reply =
  result :: "('z go_error, unit) outcome"
  resp_after :: "'r option"
  inner :: "'z call"
  body_closed :: bool

definition DoWithHeaders ::
  "('v, 'r, 'z, 'p) env \<Rightarrow> 'p client \<Rightarrow> string \<Rightarrow> string \<Rightarrow>
     (string \<times> string) list option \<Rightarrow> 'v body \<Rightarrow> 'r option \<Rightarrow> ('r, 'z) reply" where
  "DoWithHeaders en c method uri headers body resp =
     (let r = DoAndGetResponseBody en c method uri headers body in
      case returned r of
        Panic \<Rightarrow> \<lparr>result = Panic, resp_after = resp, inner = r, body_closed = False\<rparr>
      | Failed e \<Rightarrow> \<lparr>result = Failed e, resp_after = resp, inner = r, body_closed = False\<rparr>
      | Ok res \<Rightarrow>
          if StatusCode res \<ge> 200 \<and> StatusCode res \<le> 299
          then
            (case resp of
               None \<Rightarrow> \<lparr>result = Ok (), resp_after = None, inner = r, body_closed = True\<rparr>
             | Some d \<Rightarrow>
                 (case Decoder_Decode (json_Unmarshal en) (Body res) d of
                    (Some e, d') \<Rightarrow>
                      if e \<noteq> EOF
                      then \<lparr>result = Failed e, resp_after = Some d', inner = r,
                            body_closed = True\<rparr>
                      else \<lparr>result = Ok (), resp_after = Some d', inner = r,
                            body_closed = True\<rparr>
                  | (None, d') \<Rightarrow>
                      \<lparr>result = Ok (), resp_after = Some d', inner = r,
                       body_closed = True\<rparr>))
          else \<lparr>result = Failed (HTTPError (ParseJSONError en res)), resp_after = resp,
                inner = r, body_closed = True\<rparr>)"

definition Do ::
  "('v, 'r, 'z, 'p) env \<Rightarrow> 'p client \<Rightarrow> string \<Rightarrow> string \<Rightarrow> 'v body \<Rightarrow> 'r option \<Rightarrow>
     ('r, 'z) reply" where
  "Do en c method path body resp = DoWithHeaders en c method path None body resp"

definition Get ::
  "('v, 'r, 'z, 'p) env \<Rightarrow> 'p client \<Rightarrow> string \<Rightarrow> (string \<times> string) list option \<Rightarrow>
     'r option \<Rightarrow> ('r, 'z) reply" where
  "Get en c path headers resp = DoWithHeaders en c ''GET'' path headers NilBody resp"

definition Post ::
  "('v, 'r, 'z, 'p) env \<Rightarrow> 'p client \<Rightarrow> string \<Rightarrow> (string \<times> string) list option \<Rightarrow>
     'v body \<Rightarrow> 'r option \<Rightarrow> ('r, 'z) reply" where
  "Post en c path headers body resp = DoWithHeaders en c ''POST'' path headers body resp"

definition Put ::
  "('v, 'r, 'z, 'p) env \<Rightarrow> 'p client \<Rightarrow> string \<Rightarrow> (string \<times> string) list option \<Rightarrow>
     'v body \<Rightarrow> 'r option \<Rightarrow> ('r, 'z) reply" where
  "Put en c path headers body resp = DoWithHeaders en c ''PUT'' path headers body resp"

definition Delete ::
  "('v, 'r, 'z, 'p) env \<Rightarrow> 'p client \<Rightarrow> string \<Rightarrow> (string \<times> string) list option \<Rightarrow>
     'r option \<Rightarrow> ('r, 'z) reply" where
  "Delete en c path headers resp = DoWithHeaders en c ''DELETE'' path headers NilBody resp"

section \<open>Sample inputs\<close>

text \<open>
  Concrete inputs on which the theorems below are run: a platform and options for
  \<^verbatim>\<open>New\<close>, the client they yield for the host \<^verbatim>\<open>https://array.example.com/api\<close>, and
  an environment whose server answers every request with one given response. Its body
  values are raw JSON messages (\<^verbatim>\<open>json.RawMessage\<close>): the encoder writes the message and a
  newline, and rejects the message \<^verbatim>\<open>NaN\<close>, which is not JSON. The sample
  decoder knows three bodies and rejects every other one; the sample status texts are those
  of net/http for the codes listed and, as there, empty for a code without a standard text.
  The sample client holds no token, so the base64 encoding is never consulted.
\<close>

definition sample_sys :: "(unit, unit) sys" where
  "sample_sys =
     \<lparr>x509_SystemCertPool = Inr (),
      os_ReadFile = (\<lambda>path. Inl (LibError ''no such file or directory'')),
      AppendCertsFromPEM = (\<lambda>pool pem. (False, pool))\<rparr>"

definition sample_opts :: ClientOptions where
  "sample_opts =
     \<lparr>Insecure = True, UseCerts = False, Timeout = 0, ShowHTTP = False, CertFile = []\<rparr>"

definition sample_client :: "unit client" where
  "sample_client =
     \<lparr>http = \<lparr>Transport = Some \<lparr>RootCAs = None, InsecureSkipVerify = True\<rparr>,
              Client_Timeout = 0\<rparr>,
      host = ''https://array.example.com'', token = [], showHTTP = False, debug = False\<rparr>"

definition body_not_found :: bytes where
  \<open>body_not_found = ''{"message":"not found"}''\<close>

definition body_busy :: bytes where
  \<open>body_busy = ''{"httpStatusCode":200,"message":"busy"}''\<close>

definition sample_decodeError ::
  "bytes \<Rightarrow> 'z Error_scheme \<Rightarrow> 'z go_error option \<times> 'z Error_scheme" where
  "sample_decodeError b j =
     (if b = ''{}'' then (None, j)
      else if b = body_not_found then (None, j\<lparr>Message := ''not found''\<rparr>)
      else if b = body_busy then (None, j\<lparr>HTTPStatusCode := 200, Message := ''busy''\<rparr>)
      else (Some (LibError ''invalid character''), j))"

definition sample_StatusText :: "int \<Rightarrow> string" where
  "sample_StatusText code =
     (if code = 200 then ''OK''
      else if code = 404 then ''Not Found''
      else if code = 500 then ''Internal Server Error''
      else if code = 503 then ''Service Unavailable''
      else [])"

definition err_not_json :: "unit go_error" where
  "err_not_json = LibError ''json: error calling MarshalJSON for type json.RawMessage''"

definition sample_env :: "Response \<Rightarrow> (string, string, unit, unit) env" where
  "sample_env res =
     \<lparr>url_Parse = Inr,
      json_Encode = (\<lambda>v. if v = ''NaN'' then Inl err_not_json
                          else Inr (v @ [CHR 0x0A])),
      json_Unmarshal = (\<lambda>b d. (None, b)),
      json_UnmarshalError = sample_decodeError,
      zero_vendor = (),
      http_NewRequest = (\<lambda>method u. None),
      http_StatusText = sample_StatusText,
      base64_Encode = (\<lambda>s. s),
      http_Do = (\<lambda>hc req. Inr res)\<rparr>"

definition res_not_found :: Response where
  "res_not_found = \<lparr>StatusCode = 404, Status = ''404 Not Found'', Body = body_not_found\<rparr>"

definition res_busy :: Response where
  "res_busy = \<lparr>StatusCode = 503, Status = ''503 Service Unavailable'', Body = body_busy\<rparr>"

definition res_html :: Response where
  "res_html = \<lparr>StatusCode = 500, Status = ''500 Internal Server Error'', Body = ''<html>''\<rparr>"

definition res_no_message :: Response where
  "res_no_message = \<lparr>StatusCode = 500, Status = ''500 Internal Server Error'', Body = ''{}''\<rparr>"

definition res_unassigned :: Response where
  "res_unassigned = \<lparr>StatusCode = 599, Status = ''599 Upstream Failure'', Body = ''<html>''\<rparr>"

definition res_ok_empty :: Response where
  "res_ok_empty = \<lparr>StatusCode = 200, Status = ''200 OK'', Body = []\<rparr>"

definition meta_array :: "(string \<times> string list) list" where
  "meta_array = [(''X-Array'', [''from-metadata''])]"

definition caller_headers :: "(string \<times> string) list" where
  "caller_headers = [(''X-Array'', ''from-caller''), (''Accept'', ''application/json'')]"



section \<open>Facts about the building blocks\<close>

lemmas canon_defs = CanonicalMIMEHeaderKey_def validHeaderFieldByte_def
  canonByte_def lowerLetters_def upperLetters_def

lemmas sample_defs = sample_env_def sample_client_def DoAndGetResponseBody_def buildURL_def
  endsWithSlash_def beginsWithSlash_def ubf_String_def sendRequest_def addMetaData_def
  addHeaders_def Let_def

lemmas call_defs = sample_defs Header_Get_def Header_Add_def Header_Set_def
  HeaderKeyContentType_def HeaderValContentTypeJSON_def contentTypeFor_def canon_defs

lemma canon_ContentType:
  "CanonicalMIMEHeaderKey HeaderKeyContentType = HeaderKeyContentType"
  by (simp add: HeaderKeyContentType_def canon_defs)

lemma canon_Authorization_eq: "CanonicalMIMEHeaderKey ''Authorization'' = ''Authorization''"
  by (simp add: canon_defs)

lemma canon_Authorization:
  "CanonicalMIMEHeaderKey ''Authorization'' \<noteq> HeaderKeyContentType"
  by (simp add: canon_Authorization_eq HeaderKeyContentType_def)

subsection \<open>The URL buffer and construction\<close>

lemma buildURL_empty: "buildURL c [] = None"
  by (simp add: buildURL_def beginsWithSlash_def split: option.split)

lemma buildURL_nonempty:
  "host c \<noteq> [] \<Longrightarrow> uri \<noteq> [] \<Longrightarrow>
   buildURL c uri =
     Some (host c @ (if last (host c) = CHR ''/'' then [] else ''/'')
             @ (if hd uri = CHR ''/'' then tl uri else uri))"
  by (cases uri)
    (simp_all add: buildURL_def beginsWithSlash_def endsWithSlash_def ubf_String_def)

lemma New_host:
  "New sy h opts dbg = Ok c \<Longrightarrow> host c = strings_Replace1 h ''/api'' []"
  by (auto simp: New_def New_flags_def Let_def split: if_splits sum.splits prod.splits)

subsection \<open>The header loop\<close>

lemma addHeaders_Nil: "addHeaders b [] r = r"
  by (simp add: addHeaders_def)

lemma addHeaders_Cons:
  "addHeaders b ((k, x) # hs) r =
     addHeaders b hs
       (if k = HeaderKeyContentType \<and> b then r else r\<lparr>Header := Header_Add (Header r) k x\<rparr>)"
  by (simp add: addHeaders_def)

lemma addHeaders_ReqBody: "ReqBody (addHeaders b hs r) = ReqBody r"
  by (induction hs arbitrary: r) (auto simp: addHeaders_Nil addHeaders_Cons)

text \<open>\<^verbatim>\<open>Add\<close> only appends: the values a key holds stay a prefix of what it holds later.\<close>

lemma addHeaders_grows:
  "Header r K = Some vs \<Longrightarrow> \<exists>ys. Header (addHeaders b hs r) K = Some (vs @ ys)"
proof (induction hs arbitrary: r vs)
  case Nil
  then show ?case by (simp add: addHeaders_Nil)
next
  case (Cons p hs)
  obtain k x where p: "p = (k, x)" by (cases p)
  let ?r = "if k = HeaderKeyContentType \<and> b then r else r\<lparr>Header := Header_Add (Header r) k x\<rparr>"
  have "\<exists>zs. Header ?r K = Some (vs @ zs)"
    using Cons.prems by (auto simp: Header_Add_def)
  then obtain zs where "Header ?r K = Some (vs @ zs)" ..
  from Cons.IH [OF this] obtain ys where "Header (addHeaders b hs ?r) K = Some ((vs @ zs) @ ys)" ..
  then show ?case unfolding p addHeaders_Cons by auto
qed

text \<open>A key that no entry of the map canonicalises to is left as it was.\<close>

lemma addHeaders_untouched:
  "(\<And>k x. (k, x) \<in> set hs \<Longrightarrow> (k = HeaderKeyContentType \<and> b) \<or> CanonicalMIMEHeaderKey k \<noteq> K)
   \<Longrightarrow> Header (addHeaders b hs r) K = Header r K"
proof (induction hs arbitrary: r)
  case Nil
  then show ?case by (simp add: addHeaders_Nil)
next
  case (Cons p hs)
  obtain k x where p: "p = (k, x)" by (cases p)
  let ?r = "if k = HeaderKeyContentType \<and> b then r else r\<lparr>Header := Header_Add (Header r) k x\<rparr>"
  have 1: "Header ?r K = Header r K"
    using Cons.prems [of k x] by (auto simp: p Header_Add_def)
  have "Header (addHeaders b hs ?r) K = Header ?r K"
    by (rule Cons.IH) (use Cons.prems in auto)
  with 1 show ?case unfolding p addHeaders_Cons by simp
qed

text \<open>Every entry the loop does not skip ends up among the values of its canonical key.\<close>

lemma addHeaders_carries:
  "(k, x) \<in> set hs \<Longrightarrow> \<not> (k = HeaderKeyContentType \<and> b) \<Longrightarrow>
   \<exists>vs. Header (addHeaders b hs r) (CanonicalMIMEHeaderKey k) = Some vs \<and> x \<in> set vs"
proof (induction hs arbitrary: r)
  case Nil
  then show ?case by simp
next
  case (Cons p hs)
  obtain k' x' where p: "p = (k', x')" by (cases p)
  let ?r = "if k' = HeaderKeyContentType \<and> b then r
            else r\<lparr>Header := Header_Add (Header r) k' x'\<rparr>"
  show ?case
  proof (cases "(k, x) = p")
    case True
    then have "\<exists>vs. Header ?r (CanonicalMIMEHeaderKey k) = Some (vs @ [x])"
      using Cons.prems(2) by (auto simp: p Header_Add_def)
    then obtain vs where "Header ?r (CanonicalMIMEHeaderKey k) = Some (vs @ [x])" ..
    from addHeaders_grows [OF this, of b hs]
    show ?thesis unfolding p addHeaders_Cons by auto
  next
    case False
    with Cons.prems have "(k, x) \<in> set hs" by auto
    from Cons.IH [OF this Cons.prems(2), of ?r]
    show ?thesis unfolding p addHeaders_Cons .
  qed
qed

lemma SetBasicAuth_ReqBody: "ReqBody (SetBasicAuth en r u p) = ReqBody r"
  by (simp add: SetBasicAuth_def)

lemma SetBasicAuth_other:
  "K \<noteq> ''Authorization'' \<Longrightarrow> Header (SetBasicAuth en r u p) K = Header r K"
  by (simp add: SetBasicAuth_def Header_Set_def canon_Authorization_eq)

lemma SetBasicAuth_ContentType:
  "Header (SetBasicAuth en r u p) HeaderKeyContentType = Header r HeaderKeyContentType"
  using canon_Authorization by (auto simp: SetBasicAuth_def Header_Set_def)

subsection \<open>Metadata and the caller's map\<close>

lemma map_of_fold_update:
  "map_of (fold (\<lambda>k m. AList.update k (f k) m) ks hs) k
     = (if k \<in> set ks then Some (f k) else map_of hs k)"
  by (induction ks arbitrary: hs) (simp_all add: update_conv')

lemma addMetaData_Some:
  "MetaData body = Some md \<Longrightarrow>
   addMetaData (Some hs) body
     = Some (fold (\<lambda>k m. AList.update k (Header_Get (map_of md) k) m) (map fst md) hs)"
  by (cases body) (simp_all add: addMetaData_def)

lemma addMetaData_None: "addMetaData None body = None"
  by (simp add: addMetaData_def)

subsection \<open>What a call that reaches the transport has done\<close>

lemma sent_sendRequest:
  "sent (sendRequest en c headers body True closed r0) =
     [if token c \<noteq> []
      then SetBasicAuth en
             (addHeaders True (case addMetaData headers body of None \<Rightarrow> [] | Some hs \<Rightarrow> hs) r0)
             [] (token c)
      else addHeaders True (case addMetaData headers body of None \<Rightarrow> [] | Some hs \<Rightarrow> hs) r0]"
  by (simp add: sendRequest_def Let_def)

lemma headers_after_sendRequest:
  "headers_after (sendRequest en c headers body b closed r0) = addMetaData headers body"
  by (simp add: sendRequest_def Let_def)

lemma sendRequest_nil_headers:
  "sendRequest en c None body b cl r0 = sendRequest en c None NilBody b cl r0"
  by (simp add: sendRequest_def addMetaData_None)

lemma headers_after_sent:
  "sent (DoAndGetResponseBody en c method uri headers body) \<noteq> [] \<Longrightarrow>
   headers_after (DoAndGetResponseBody en c method uri headers body) = addMetaData headers body"
  by (auto simp: DoAndGetResponseBody_def headers_after_sendRequest
      split: option.splits sum.splits body.splits)

lemma sent_Value:
  assumes "sent (DoAndGetResponseBody en c method uri headers (Value v md)) \<noteq> []"
  obtains u buf where "json_Encode en v = Inr buf"
    and "DoAndGetResponseBody en c method uri headers (Value v md) =
           sendRequest en c headers (Value v md) True False
             \<lparr>Method = method, URL = u,
              Header = Header_Set Map.empty HeaderKeyContentType
                         (contentTypeFor headers HeaderValContentTypeJSON),
              ReqBody = Some buf\<rparr>"
  using assms
  by (auto simp: DoAndGetResponseBody_def split: option.splits sum.splits)

lemma sent_nonNil:
  assumes "sent (DoAndGetResponseBody en c method uri headers body) \<noteq> []"
    and "body \<noteq> NilBody"
  obtains closed r0 where
    "DoAndGetResponseBody en c method uri headers body
       = sendRequest en c headers body True closed r0"
  using assms
  by (auto simp: DoAndGetResponseBody_def split: option.splits sum.splits body.splits)

lemma sample_returned:
  "returned (DoAndGetResponseBody (sample_env res) sample_client ''GET'' ''/x'' None NilBody) = Ok res"
  by (simp add: sample_defs)

section \<open>The empty path\<close>

text \<open>
  C1. The claim is that a call with an empty relative path builds the host URL unchanged
  and does not fail. The code guards the two writes into the buffer with
  \<^verbatim>\<open>luri > 0\<close>, but it evaluates \<^verbatim>\<open>beginsWithSlash(uri)\<close> in the \<^verbatim>\<open>var\<close> block before
  either guard, and that function reads \<^verbatim>\<open>s[0]\<close>. So for every client, method, header
  map and body, \<^verbatim>\<open>DoAndGetResponseBody\<close> with the empty path panics, hands no request to
  the transport, and \<^verbatim>\<open>DoWithHeaders\<close> (hence \<^verbatim>\<open>Do\<close>, \<^verbatim>\<open>Get\<close>, \<^verbatim>\<open>Post\<close>, \<^verbatim>\<open>Put\<close>,
  \<^verbatim>\<open>Delete\<close>) panics with it.
\<close>

theorem C1_empty_path_panics:
  "returned (DoAndGetResponseBody en c method [] headers body) = Panic
   \<and> sent (DoAndGetResponseBody en c method [] headers body) = []
   \<and> result (DoWithHeaders en c method [] headers body resp) = Panic
   \<and> result (Do en c method [] body resp) = Panic
   \<and> result (Get en c [] headers resp) = Panic
   \<and> result (Post en c [] headers body resp) = Panic
   \<and> result (Put en c [] headers body resp) = Panic
   \<and> result (Delete en c [] headers resp) = Panic"
  by (simp add: Do_def Get_def Post_def Put_def Delete_def DoWithHeaders_def
      DoAndGetResponseBody_def buildURL_empty)

section \<open>Non-2xx responses\<close>

text \<open>
  C2. Whenever the exchange yields a response whose status code lies outside 200 to 299,
  \<^verbatim>\<open>DoWithHeaders\<close> returns the structured error \<^verbatim>\<open>ParseJSONError\<close> builds from that
  response (a structured error, not an error of the transport), and the status code of
  that error is the response's status code, whatever the decoder made of the body:
  a status the body carries is overwritten.
\<close>

theorem C2_non2xx_structured_error:
  assumes "returned (DoAndGetResponseBody en c method uri headers body) = Ok res"
    and "\<not> (200 \<le> StatusCode res \<and> StatusCode res \<le> 299)"
  shows "result (DoWithHeaders en c method uri headers body resp)
           = Failed (HTTPError (ParseJSONError en res))
         \<and> HTTPStatusCode (ParseJSONError en res) = StatusCode res"
proof -
  have "HTTPStatusCode (ParseJSONError en res) = StatusCode res"
    by (simp add: ParseJSONError_def Let_def split: prod.split option.split)
  with assms show ?thesis
    by (auto simp: DoWithHeaders_def Let_def)
qed

text \<open>
  The theorem at a response 503 whose body decodes to status 200 and message
  \<^verbatim>\<open>busy\<close>: the error returned carries 503.
\<close>

theorem C2_witness:
  "returned (DoAndGetResponseBody (sample_env res_busy) sample_client ''GET'' ''/x'' None NilBody)
     = Ok res_busy
   \<and> \<not> (200 \<le> StatusCode res_busy \<and> StatusCode res_busy \<le> 299)
   \<and> result (DoWithHeaders (sample_env res_busy) sample_client ''GET'' ''/x'' None NilBody None)
       = Failed (HTTPError \<lparr>HTTPStatusCode = 503, Message = ''busy''\<rparr>)"
proof -
  have 1: "returned (DoAndGetResponseBody (sample_env res_busy) sample_client ''GET'' ''/x'' None NilBody)
     = Ok res_busy"
    by (rule sample_returned)
  have 2: "\<not> (200 \<le> StatusCode res_busy \<and> StatusCode res_busy \<le> 299)"
    by (simp add: res_busy_def)
  have 3: "ParseJSONError (sample_env res_busy) res_busy = \<lparr>HTTPStatusCode = 503, Message = ''busy''\<rparr>"
    by (simp add: ParseJSONError_def Decoder_Decode_def json_isSpace_def sample_env_def
        sample_decodeError_def res_busy_def body_busy_def body_not_found_def Let_def)
  from C2_non2xx_structured_error [OF 1 2, of None] 1 2 3 show ?thesis by simp
qed

section \<open>Joining host and path\<close>

text \<open>
  C3, as the code has it. A client that \<^verbatim>\<open>New\<close> returns holds the host with the first
  occurrence of \<^verbatim>\<open>/api\<close> removed. For such a client whose host is not empty, and a path
  that is not empty, the URL built is the host, then a slash if the host does not end in
  one, then the path without one leading slash if it has one. One slash is inserted or
  one is dropped, never more: the host without one trailing slash and the path without
  one leading slash stand with one slash between them, and a further slash at the end of
  the host or at the start of the path stays where it is. In particular the host
  \<^verbatim>\<open>https://array.example.com/api\<close> and the path \<^verbatim>\<open>/sloprovisioning/symmetrix\<close> give
  \<^verbatim>\<open>https://array.example.com/sloprovisioning/symmetrix\<close>.
\<close>

theorem C3_url_join:
  assumes new: "New sy h opts dbg = Ok c" and h: "host c \<noteq> []" and uri: "uri \<noteq> []"
  shows "host c = strings_Replace1 h ''/api'' []
         \<and> buildURL c uri =
             Some (host c @ (if last (host c) = CHR ''/'' then [] else ''/'')
                     @ (if hd uri = CHR ''/'' then tl uri else uri))
         \<and> buildURL c uri =
             Some ((if last (host c) = CHR ''/'' then butlast (host c) else host c) @ ''/''
                     @ (if hd uri = CHR ''/'' then tl uri else uri))
         \<and> (h = ''https://array.example.com/api'' \<and> uri = ''/sloprovisioning/symmetrix''
              \<longrightarrow> buildURL c uri = Some ''https://array.example.com/sloprovisioning/symmetrix'')"
proof -
  have 1: "host c = strings_Replace1 h ''/api'' []"
    using new by (rule New_host)
  have 2: "buildURL c uri =
             Some (host c @ (if last (host c) = CHR ''/'' then [] else ''/'')
                     @ (if hd uri = CHR ''/'' then tl uri else uri))"
    using h uri by (rule buildURL_nonempty)
  have "butlast (host c) @ ''/'' = host c" if "last (host c) = CHR ''/''"
    using append_butlast_last_id [OF h] that by simp
  with 2 have 3: "buildURL c uri =
             Some ((if last (host c) = CHR ''/'' then butlast (host c) else host c) @ ''/''
                     @ (if hd uri = CHR ''/'' then tl uri else uri))"
    by auto
  have 4: "buildURL c uri = Some ''https://array.example.com/sloprovisioning/symmetrix''"
    if "h = ''https://array.example.com/api''" and "uri = ''/sloprovisioning/symmetrix''"
    using 2 that unfolding 1 by simp
  from 1 2 3 4 show ?thesis by blast
qed

text \<open>The theorem at the scenario of the claim, the client built by \<^verbatim>\<open>New\<close>.\<close>

theorem C3_witness:
  "New sample_sys ''https://array.example.com/api'' sample_opts False = Ok sample_client
   \<and> host sample_client \<noteq> [] \<and> ''/sloprovisioning/symmetrix'' \<noteq> []
   \<and> host sample_client = ''https://array.example.com''
   \<and> buildURL sample_client ''/sloprovisioning/symmetrix''
       = Some ''https://array.example.com/sloprovisioning/symmetrix''"
proof -
  have 1: "New sample_sys ''https://array.example.com/api'' sample_opts False = Ok sample_client"
    by (simp add: New_def New_flags_def sample_sys_def sample_opts_def sample_client_def)
  have 2: "host sample_client \<noteq> []"
    by (simp add: sample_client_def)
  have 3: "''/sloprovisioning/symmetrix'' \<noteq> []"
    by simp
  from C3_url_join [OF 1 2 3] 1 2 show ?thesis by simp
qed

text \<open>
  The claim has exactly one slash at the join for every host and every path that is not
  empty. A path that begins with two slashes keeps one of them after the host's, and the
  host \<^verbatim>\<open>/api\<close>, which \<^verbatim>\<open>New\<close> accepts, leaves a client with the empty host, for
  which no URL is built: \<^verbatim>\<open>endsWithSlash\<close> reads the last byte of the empty string.
\<close>

theorem C3_double_slash_counterexample:
  "buildURL sample_client ''//x'' = Some ''https://array.example.com//x''
   \<and> New sample_sys ''/api'' sample_opts False = Ok (sample_client\<lparr>host := []\<rparr>)
   \<and> buildURL (sample_client\<lparr>host := []\<rparr>) ''/x'' = None"
  by (simp add: New_def New_flags_def sample_sys_def sample_opts_def sample_client_def
      buildURL_def endsWithSlash_def beginsWithSlash_def ubf_String_def)

section \<open>Construction does not read UseCerts\<close>

text \<open>
  C9. \<^verbatim>\<open>New\<close> never reads the option \<^verbatim>\<open>UseCerts\<close>: for every platform, host,
  configuration and debug flag, setting the option to any value leaves the outcome of
  construction as it was, the client (trust policy, transport, timeout, flags) and the
  error alike.
\<close>

theorem C9_UseCerts_unread:
  "New sy h (opts\<lparr>UseCerts := b\<rparr>) dbg = New sy h opts dbg"
  by (simp add: New_def New_flags_def Let_def split: sum.split prod.split)

section \<open>Metadata headers and the caller's headers\<close>

text \<open>
  C4, as the code has it. \<^verbatim>\<open>addMetaData\<close> assigns each metadata entry into the caller's
  header map before the map is applied to the request. For a body with metadata and a
  header map that is not nil: under a key the metadata carries, the map then holds the
  metadata-derived value, which replaces a value the caller supplied under that key;
  under every other key the caller's value is kept. When the call sends a request, that
  map is the caller's map after the call, and every entry of it other than
  \<^verbatim>\<open>Content-Type\<close> (which the body's encoding has settled) and, for a client with a token,
  other than one that canonicalises to \<^verbatim>\<open>Authorization\<close>, is among the values the request
  carries under the entry's canonical key. So metadata and caller headers are cumulative
  for different keys, and metadata wins where the keys are the same.
\<close>

theorem C4_metadata_written_into_caller_map:
  assumes md: "MetaData body = Some md"
  shows "\<exists>hs'. addMetaData (Some hs) body = Some hs'
           \<and> (\<forall>k. map_of hs' k
                  = (if k \<in> fst ` set md then Some (Header_Get (map_of md) k)
                     else map_of hs k))
           \<and> (\<forall>req. sent (DoAndGetResponseBody en c method uri (Some hs) body) = [req] \<longrightarrow>
                 headers_after (DoAndGetResponseBody en c method uri (Some hs) body) = Some hs'
                 \<and> (\<forall>k x. (k, x) \<in> set hs' \<longrightarrow> k \<noteq> HeaderKeyContentType
                       \<longrightarrow> (token c = [] \<or> CanonicalMIMEHeaderKey k \<noteq> ''Authorization'')
                       \<longrightarrow> (\<exists>vs. Header req (CanonicalMIMEHeaderKey k) = Some vs
                                  \<and> x \<in> set vs)))"
proof -
  let ?D = "DoAndGetResponseBody en c method uri (Some hs) body"
  let ?hs' = "fold (\<lambda>k m. AList.update k (Header_Get (map_of md) k) m) (map fst md) hs"
  have a: "addMetaData (Some hs) body = Some ?hs'"
    using md by (rule addMetaData_Some)
  have b: "\<forall>k. map_of ?hs' k
                  = (if k \<in> fst ` set md then Some (Header_Get (map_of md) k) else map_of hs k)"
    by (simp add: map_of_fold_update)
  have nn: "body \<noteq> NilBody"
    using md by auto
  have c: "headers_after ?D = Some ?hs'
           \<and> (\<forall>k x. (k, x) \<in> set ?hs' \<longrightarrow> k \<noteq> HeaderKeyContentType
                       \<longrightarrow> (token c = [] \<or> CanonicalMIMEHeaderKey k \<noteq> ''Authorization'')
                       \<longrightarrow> (\<exists>vs. Header req (CanonicalMIMEHeaderKey k) = Some vs
                                  \<and> x \<in> set vs))"
    if s: "sent ?D = [req]" for req
  proof -
    from s have s': "sent ?D \<noteq> []" by simp
    then obtain closed r0 where D: "?D = sendRequest en c (Some hs) body True closed r0"
      using nn by (rule sent_nonNil)
    have after: "headers_after ?D = Some ?hs'"
      using headers_after_sent [OF s'] a by simp
    have req: "req = (if token c \<noteq> [] then SetBasicAuth en (addHeaders True ?hs' r0) [] (token c)
                      else addHeaders True ?hs' r0)"
      using s unfolding D sent_sendRequest a by (auto split: if_splits)
    have "\<exists>vs. Header req (CanonicalMIMEHeaderKey k) = Some vs \<and> x \<in> set vs"
      if "(k, x) \<in> set ?hs'" and "k \<noteq> HeaderKeyContentType"
        and "token c = [] \<or> CanonicalMIMEHeaderKey k \<noteq> ''Authorization''" for k x
    proof -
      from that(1,2) have
        "\<exists>vs. Header (addHeaders True ?hs' r0) (CanonicalMIMEHeaderKey k) = Some vs \<and> x \<in> set vs"
        by (intro addHeaders_carries) auto
      moreover have "Header req (CanonicalMIMEHeaderKey k)
                       = Header (addHeaders True ?hs' r0) (CanonicalMIMEHeaderKey k)"
        using that(3) by (auto simp: req SetBasicAuth_other)
      ultimately show ?thesis by simp
    qed
    with after show ?thesis by blast
  qed
  from a b c show ?thesis by blast
qed

text \<open>
  The theorem at a caller's map with \<^verbatim>\<open>X-Array\<close> and \<^verbatim>\<open>Accept\<close> and a body whose metadata
  carries \<^verbatim>\<open>X-Array\<close>.
\<close>

theorem C4_witness:
  "MetaData (Value ''{}'' (Some meta_array) :: string body) = Some meta_array
   \<and> length (sent (DoAndGetResponseBody (sample_env res_ok_empty) sample_client ''POST'' ''/x''
                    (Some caller_headers) (Value ''{}'' (Some meta_array)))) = 1
   \<and> (\<exists>hs'. headers_after (DoAndGetResponseBody (sample_env res_ok_empty) sample_client ''POST''
                 ''/x'' (Some caller_headers) (Value ''{}'' (Some meta_array))) = Some hs'
          \<and> map_of hs' ''X-Array'' = Some ''from-metadata''
          \<and> map_of hs' ''Accept'' = Some ''application/json'')
   \<and> (\<exists>vs. Header (hd (sent (DoAndGetResponseBody (sample_env res_ok_empty) sample_client ''POST''
                 ''/x'' (Some caller_headers) (Value ''{}'' (Some meta_array))))) ''Accept''
               = Some vs
          \<and> ''application/json'' \<in> set vs)"
proof -
  let ?D = "DoAndGetResponseBody (sample_env res_ok_empty) sample_client ''POST''
                 ''/x'' (Some caller_headers) (Value ''{}'' (Some meta_array))"
  have 1: "MetaData (Value ''{}'' (Some meta_array) :: string body) = Some meta_array"
    by simp
  have len: "length (sent ?D) = 1"
    by (simp add: sample_defs)
  then have s: "sent ?D = [hd (sent ?D)]"
    by (cases "sent ?D") simp_all
  from C4_metadata_written_into_caller_map [OF 1, of caller_headers "sample_env res_ok_empty"
      sample_client "''POST''" "''/x''"]
  obtain hs' where
    b: "\<forall>k. map_of hs' k
                  = (if k \<in> fst ` set meta_array then Some (Header_Get (map_of meta_array) k)
                     else map_of caller_headers k)"
    and c: "\<forall>req. sent ?D = [req] \<longrightarrow>
                 headers_after ?D = Some hs'
                 \<and> (\<forall>k x. (k, x) \<in> set hs' \<longrightarrow> k \<noteq> HeaderKeyContentType
                       \<longrightarrow> (token sample_client = [] \<or> CanonicalMIMEHeaderKey k \<noteq> ''Authorization'')
                       \<longrightarrow> (\<exists>vs. Header req (CanonicalMIMEHeaderKey k) = Some vs
                                  \<and> x \<in> set vs))"
    by blast
  have x: "map_of hs' ''X-Array'' = Some ''from-metadata''"
    using b by (simp add: meta_array_def Header_Get_def canon_defs)
  have y: "map_of hs' ''Accept'' = Some ''application/json''"
    using b by (simp add: meta_array_def caller_headers_def)
  from c s have after: "headers_after ?D = Some hs'"
    and carried: "\<forall>k x. (k, x) \<in> set hs' \<longrightarrow> k \<noteq> HeaderKeyContentType
                       \<longrightarrow> (token sample_client = [] \<or> CanonicalMIMEHeaderKey k \<noteq> ''Authorization'')
                       \<longrightarrow> (\<exists>vs. Header (hd (sent ?D)) (CanonicalMIMEHeaderKey k) = Some vs
                                  \<and> x \<in> set vs)"
    by blast+
  have "(''Accept'', ''application/json'') \<in> set hs'"
    using y by (rule map_of_SomeD)
  moreover have "''Accept'' \<noteq> HeaderKeyContentType"
    by (simp add: HeaderKeyContentType_def)
  moreover have "token sample_client = []"
    by (simp add: sample_client_def)
  ultimately have "\<exists>vs. Header (hd (sent ?D)) (CanonicalMIMEHeaderKey ''Accept'') = Some vs
                                  \<and> ''application/json'' \<in> set vs"
    using carried by blast
  moreover have "CanonicalMIMEHeaderKey ''Accept'' = ''Accept''"
    by (simp add: canon_defs)
  ultimately show ?thesis using 1 len after x y by auto
qed

text \<open>
  The claim as stated fails there: the caller's \<^verbatim>\<open>X-Array: from-caller\<close> is overwritten, in
  the caller's map and on the request, which carries \<^verbatim>\<open>from-metadata\<close> alone.
\<close>

theorem C4_overwrite_counterexample:
  "headers_after (DoAndGetResponseBody (sample_env res_ok_empty) sample_client ''POST'' ''/x''
                    (Some caller_headers) (Value ''{}'' (Some meta_array)))
     = Some [(''X-Array'', ''from-metadata''), (''Accept'', ''application/json'')]
   \<and> length (sent (DoAndGetResponseBody (sample_env res_ok_empty) sample_client ''POST'' ''/x''
                    (Some caller_headers) (Value ''{}'' (Some meta_array)))) = 1
   \<and> Header (hd (sent (DoAndGetResponseBody (sample_env res_ok_empty) sample_client ''POST'' ''/x''
                    (Some caller_headers) (Value ''{}'' (Some meta_array))))) ''X-Array''
       = Some [''from-metadata'']"
  by (simp add: call_defs caller_headers_def meta_array_def)

section \<open>JSON bodies and Content-Type\<close>

text \<open>
  C5, as the code has it. For a body that is neither nil nor a stream, whose encoding
  succeeds, the request sent has the encoder's output as its payload, and the first value
  of its \<^verbatim>\<open>Content-Type\<close> header (the one \<^verbatim>\<open>Header.Get\<close> returns) is the caller's entry
  under exactly the key \<^verbatim>\<open>Content-Type\<close> when the caller's map has one, and
  \<^verbatim>\<open>application/json\<close> otherwise. That value is the only one, provided no other key of
  the caller's map after the call canonicalises to \<^verbatim>\<open>Content-Type\<close>: the loop skips the
  key \<^verbatim>\<open>Content-Type\<close> itself, and \<^verbatim>\<open>Add\<close> appends the value of any other such key.
\<close>

theorem C5_json_payload_content_type:
  assumes enc: "json_Encode en v = Inr buf"
    and sent: "sent (DoAndGetResponseBody en c method uri headers (Value v md)) = [req]"
  shows "ReqBody req = Some buf
         \<and> Header_Get (Header req) HeaderKeyContentType
             = (case headers of
                  None \<Rightarrow> HeaderValContentTypeJSON
                | Some hs \<Rightarrow>
                    (case map_of hs HeaderKeyContentType of
                       None \<Rightarrow> HeaderValContentTypeJSON
                     | Some x \<Rightarrow> x))
         \<and> ((\<forall>hs' k x. headers_after (DoAndGetResponseBody en c method uri headers (Value v md))
                          = Some hs'
                  \<longrightarrow> (k, x) \<in> set hs' \<longrightarrow> k \<noteq> HeaderKeyContentType
                  \<longrightarrow> CanonicalMIMEHeaderKey k \<noteq> HeaderKeyContentType)
             \<longrightarrow> Header req HeaderKeyContentType
                   = Some [Header_Get (Header req) HeaderKeyContentType])"
proof -
  let ?ct = "contentTypeFor headers HeaderValContentTypeJSON"
  let ?hs = "case addMetaData headers (Value v md) of None \<Rightarrow> [] | Some hs \<Rightarrow> hs"
  from sent have "sent (DoAndGetResponseBody en c method uri headers (Value v md)) \<noteq> []"
    by simp
  then obtain u buf' where enc': "json_Encode en v = Inr buf'"
    and D: "DoAndGetResponseBody en c method uri headers (Value v md) =
           sendRequest en c headers (Value v md) True False
             \<lparr>Method = method, URL = u,
              Header = Header_Set Map.empty HeaderKeyContentType ?ct,
              ReqBody = Some buf'\<rparr>"
    by (rule sent_Value)
  let ?r0 = "\<lparr>Method = method, URL = u,
              Header = Header_Set Map.empty HeaderKeyContentType ?ct,
              ReqBody = Some buf'\<rparr>"
  have buf: "buf' = buf" using enc enc' by simp
  have req: "req = (if token c \<noteq> [] then SetBasicAuth en (addHeaders True ?hs ?r0) [] (token c)
                    else addHeaders True ?hs ?r0)"
    using sent unfolding D sent_sendRequest by simp
  have after: "headers_after (DoAndGetResponseBody en c method uri headers (Value v md))
                 = addMetaData headers (Value v md)"
    unfolding D by (rule headers_after_sendRequest)
  have r0: "Header ?r0 HeaderKeyContentType = Some [?ct]"
    by (simp add: Header_Set_def canon_ContentType)
  have body: "ReqBody req = Some buf"
    by (simp add: req buf addHeaders_ReqBody SetBasicAuth_ReqBody)
  have hdr: "Header req HeaderKeyContentType = Header (addHeaders True ?hs ?r0) HeaderKeyContentType"
    by (simp add: req SetBasicAuth_ContentType)
  from addHeaders_grows [OF r0, of True ?hs]
  obtain ys where ys: "Header (addHeaders True ?hs ?r0) HeaderKeyContentType = Some ([?ct] @ ys)" ..
  have get: "Header_Get (Header req) HeaderKeyContentType = ?ct"
    by (simp add: Header_Get_def canon_ContentType hdr ys)
  have once: "Header req HeaderKeyContentType = Some [?ct]"
    if "\<forall>hs' k x. headers_after (DoAndGetResponseBody en c method uri headers (Value v md))
                          = Some hs'
                  \<longrightarrow> (k, x) \<in> set hs' \<longrightarrow> k \<noteq> HeaderKeyContentType
                  \<longrightarrow> CanonicalMIMEHeaderKey k \<noteq> HeaderKeyContentType"
  proof -
    have "Header (addHeaders True ?hs ?r0) HeaderKeyContentType = Header ?r0 HeaderKeyContentType"
    proof (rule addHeaders_untouched)
      fix k x assume "(k, x) \<in> set ?hs"
      with that after
      show "(k = HeaderKeyContentType \<and> True) \<or> CanonicalMIMEHeaderKey k \<noteq> HeaderKeyContentType"
        by (cases "addMetaData headers (Value v md)") auto
    qed
    with hdr r0 show ?thesis by simp
  qed
  show ?thesis
    using body get once by (simp add: contentTypeFor_def)
qed

text \<open>The theorem at a call that overrides \<^verbatim>\<open>Content-Type\<close> and sets \<^verbatim>\<open>Accept\<close>.\<close>

theorem C5_witness:
  "json_Encode (sample_env res_ok_empty) ''{}'' = Inr (''{}'' @ [CHR 0x0A])
   \<and> length (sent (DoAndGetResponseBody (sample_env res_ok_empty) sample_client ''POST'' ''/x''
                 (Some [(''Content-Type'', ''application/merge-patch+json''),
                        (''Accept'', ''application/json'')])
                 (Value ''{}'' None))) = 1
   \<and> ReqBody (hd (sent (DoAndGetResponseBody (sample_env res_ok_empty) sample_client ''POST'' ''/x''
                 (Some [(''Content-Type'', ''application/merge-patch+json''),
                        (''Accept'', ''application/json'')])
                 (Value ''{}'' None)))) = Some (''{}'' @ [CHR 0x0A])
   \<and> Header (hd (sent (DoAndGetResponseBody (sample_env res_ok_empty) sample_client ''POST'' ''/x''
                 (Some [(''Content-Type'', ''application/merge-patch+json''),
                        (''Accept'', ''application/json'')])
                 (Value ''{}'' None)))) HeaderKeyContentType
       = Some [''application/merge-patch+json'']"
proof -
  let ?hs = "[(''Content-Type'', ''application/merge-patch+json''),
              (''Accept'', ''application/json'')]"
  let ?D = "DoAndGetResponseBody (sample_env res_ok_empty) sample_client ''POST'' ''/x''
              (Some ?hs) (Value ''{}'' None)"
  have 1: "json_Encode (sample_env res_ok_empty) ''{}'' = Inr (''{}'' @ [CHR 0x0A])"
    by (simp add: sample_env_def)
  have len: "length (sent ?D) = 1"
    by (simp add: sample_defs)
  then have 2: "sent ?D = [hd (sent ?D)]"
    by (cases "sent ?D") simp_all
  have after: "headers_after ?D = Some ?hs"
    by (simp add: sample_defs)
  have 3: "\<forall>hs' k x. headers_after ?D = Some hs'
                  \<longrightarrow> (k, x) \<in> set hs' \<longrightarrow> k \<noteq> HeaderKeyContentType
                  \<longrightarrow> CanonicalMIMEHeaderKey k \<noteq> HeaderKeyContentType"
    unfolding after by (auto simp: HeaderKeyContentType_def canon_defs)
  from C5_json_payload_content_type [OF 1 2] 3
  have "ReqBody (hd (sent ?D)) = Some (''{}'' @ [CHR 0x0A])"
    and "Header_Get (Header (hd (sent ?D))) HeaderKeyContentType = ''application/merge-patch+json''"
    and "Header (hd (sent ?D)) HeaderKeyContentType
           = Some [Header_Get (Header (hd (sent ?D))) HeaderKeyContentType]"
    by (simp_all add: HeaderKeyContentType_def)
  with 1 len show ?thesis by simp
qed

text \<open>
  The claim as stated fails for a caller's map with the key \<^verbatim>\<open>content-type\<close>: it is not
  the override, and it is not skipped, so the request carries two \<^verbatim>\<open>Content-Type\<close> values.
\<close>

theorem C5_case_variant_counterexample:
  "length (sent (DoAndGetResponseBody (sample_env res_ok_empty) sample_client ''POST'' ''/x''
                    (Some [(''content-type'', ''text/plain'')]) (Value ''{}'' None))) = 1
   \<and> Header (hd (sent (DoAndGetResponseBody (sample_env res_ok_empty) sample_client ''POST'' ''/x''
                    (Some [(''content-type'', ''text/plain'')]) (Value ''{}'' None))))
         ''Content-Type''
       = Some [''application/json'', ''text/plain'']"
  by (simp add: call_defs)

section \<open>An empty success body\<close>

text \<open>
  C6. Whenever the exchange yields a response with status in 200 to 299 and an empty
  body, \<^verbatim>\<open>DoWithHeaders\<close> with a destination that is not nil returns no error and leaves
  the destination as it was: the decoder's \<^verbatim>\<open>io.EOF\<close> is not returned.
\<close>

theorem C6_empty_success_body:
  assumes "returned (DoAndGetResponseBody en c method uri headers body) = Ok res"
    and "200 \<le> StatusCode res" and "StatusCode res \<le> 299"
    and "Body res = []"
  shows "result (DoWithHeaders en c method uri headers body (Some d)) = Ok ()
         \<and> resp_after (DoWithHeaders en c method uri headers body (Some d)) = Some d"
  using assms by (simp add: DoWithHeaders_def Let_def Decoder_Decode_def)

text \<open>The theorem at a response \<^verbatim>\<open>200 OK\<close> with no body and a destination already filled.\<close>

theorem C6_witness:
  "returned (DoAndGetResponseBody (sample_env res_ok_empty) sample_client ''GET'' ''/x'' None NilBody)
     = Ok res_ok_empty
   \<and> 200 \<le> StatusCode res_ok_empty \<and> StatusCode res_ok_empty \<le> 299 \<and> Body res_ok_empty = []
   \<and> result (DoWithHeaders (sample_env res_ok_empty) sample_client ''GET'' ''/x'' None NilBody
               (Some ''previous'')) = Ok ()
   \<and> resp_after (DoWithHeaders (sample_env res_ok_empty) sample_client ''GET'' ''/x'' None NilBody
               (Some ''previous'')) = Some ''previous''"
proof -
  have 1: "returned (DoAndGetResponseBody (sample_env res_ok_empty) sample_client ''GET'' ''/x'' None NilBody)
     = Ok res_ok_empty"
    by (rule sample_returned)
  have 2: "200 \<le> StatusCode res_ok_empty" and 3: "StatusCode res_ok_empty \<le> 299"
    and 4: "Body res_ok_empty = []"
    by (simp_all add: res_ok_empty_def)
  from C6_empty_success_body [OF 1 2 3 4, of "''previous''"] 1 2 3 4 show ?thesis by simp
qed

section \<open>The message of the structured error\<close>

text \<open>
  C7, as the code has it. The message of the error \<^verbatim>\<open>ParseJSONError\<close> returns is: the
  decoded message when decoding succeeds and that message is not empty; the response's
  \<^verbatim>\<open>Status\<close> string (code and text, as in \<^verbatim>\<open>500 Internal Server Error\<close>) when decoding
  succeeds and the message is empty; and \<^verbatim>\<open>http.StatusText\<close> of the status code (the
  standard text alone, as in \<^verbatim>\<open>Internal Server Error\<close>, and empty for a code that has
  none) when decoding fails.
\<close>

theorem C7_error_message:
  "Message (ParseJSONError en r) =
     (case Decoder_Decode (json_UnmarshalError en) (Body r)
             \<lparr>HTTPStatusCode = 0, Message = [], \<dots> = zero_vendor en\<rparr> of
        (Some e, j) \<Rightarrow> http_StatusText en (StatusCode r)
      | (None, j) \<Rightarrow> (if Message j = [] then Status r else Message j))"
  by (simp add: ParseJSONError_def Let_def split: prod.split option.split)

text \<open>
  The claim has one text, that of the status line, for both fallbacks. Two responses with
  the same status code and the same status line, one with a body that does not parse and
  one with the body \<^verbatim>\<open>{}\<close>, get different messages; and a response with a code that has
  no standard text and a body that does not parse gets the empty message.
\<close>

theorem C7_status_text_counterexample:
  "StatusCode res_html = StatusCode res_no_message
   \<and> Status res_html = Status res_no_message
   \<and> Message (ParseJSONError (sample_env res_html) res_html) = ''Internal Server Error''
   \<and> Message (ParseJSONError (sample_env res_no_message) res_no_message)
       = ''500 Internal Server Error''
   \<and> Message (ParseJSONError (sample_env res_unassigned) res_unassigned) = []"
  by (simp add: ParseJSONError_def Decoder_Decode_def json_isSpace_def sample_env_def
      sample_decodeError_def sample_StatusText_def res_html_def res_no_message_def
      res_unassigned_def body_busy_def body_not_found_def Let_def)

text \<open>The scenario of a 404 whose body carries a message: the message is the body's.\<close>

lemma ParseJSONError_not_found:
  "ParseJSONError (sample_env res_not_found) res_not_found
     = \<lparr>HTTPStatusCode = 404, Message = ''not found''\<rparr>"
  by (simp add: ParseJSONError_def Decoder_Decode_def json_isSpace_def sample_env_def
      sample_decodeError_def res_not_found_def body_busy_def body_not_found_def Let_def)

section \<open>A body that cannot be encoded\<close>




section \<open>Metadata needs a header map\<close>

text \<open>
  C10. With a nil header map the metadata of the body has no effect at all: the call
  leaves behind exactly what it leaves behind for the same body without metadata (the
  same request, the same result), the map stays nil, and every call through \<^verbatim>\<open>Do\<close> is
  such a call. With a header map that is not nil, a call that sends a request leaves the
  caller's map holding every metadata entry under its key, the other keys as they were;
  and that map differs from the one the caller passed as soon as one metadata entry was
  not already in it with that value.
\<close>

theorem C10_metadata_needs_header_map:
  "DoAndGetResponseBody en c verb uri None (Value v md)
     = DoAndGetResponseBody en c verb uri None (Value v None)
   \<and> DoAndGetResponseBody en c verb uri None (ReadCloser r md)
     = DoAndGetResponseBody en c verb uri None (ReadCloser r None)
   \<and> Do en c verb uri body resp = DoWithHeaders en c verb uri None body resp
   \<and> headers_after (DoAndGetResponseBody en c verb uri None body) = None
   \<and> (sent (DoAndGetResponseBody en c verb uri (Some hs) body) \<noteq> []
        \<longrightarrow> MetaData body = Some meta
        \<longrightarrow> (\<exists>hs'. headers_after (DoAndGetResponseBody en c verb uri (Some hs) body) = Some hs'
               \<and> (\<forall>k. map_of hs' k
                      = (if k \<in> fst ` set meta then Some (Header_Get (map_of meta) k)
                         else map_of hs k))
               \<and> ((\<exists>k. k \<in> fst ` set meta \<and> map_of hs k \<noteq> Some (Header_Get (map_of meta) k))
                    \<longrightarrow> hs' \<noteq> hs)))"
proof -
  have 1: "DoAndGetResponseBody en c verb uri None (Value v md)
     = DoAndGetResponseBody en c verb uri None (Value v None)"
    by (simp add: DoAndGetResponseBody_def
        sendRequest_nil_headers [of en c "Value v md"] sendRequest_nil_headers [of en c "Value v None"]
        split: option.split sum.split)
  have 2: "DoAndGetResponseBody en c verb uri None (ReadCloser r md)
     = DoAndGetResponseBody en c verb uri None (ReadCloser r None)"
    by (simp add: DoAndGetResponseBody_def
        sendRequest_nil_headers [of en c "ReadCloser r md"]
        sendRequest_nil_headers [of en c "ReadCloser r None"]
        split: option.split sum.split)
  have 3: "Do en c verb uri body resp = DoWithHeaders en c verb uri None body resp"
    by (simp add: Do_def)
  have 4: "headers_after (DoAndGetResponseBody en c verb uri None body) = None"
    by (auto simp: DoAndGetResponseBody_def headers_after_sendRequest addMetaData_None
        split: option.splits sum.splits body.splits)
  have 5: "\<exists>hs'. headers_after (DoAndGetResponseBody en c verb uri (Some hs) body) = Some hs'
               \<and> (\<forall>k. map_of hs' k
                      = (if k \<in> fst ` set meta then Some (Header_Get (map_of meta) k)
                         else map_of hs k))
               \<and> ((\<exists>k. k \<in> fst ` set meta \<and> map_of hs k \<noteq> Some (Header_Get (map_of meta) k))
                    \<longrightarrow> hs' \<noteq> hs)"
    if s: "sent (DoAndGetResponseBody en c verb uri (Some hs) body) \<noteq> []"
      and m: "MetaData body = Some meta"
  proof -
    let ?hs' = "fold (\<lambda>k m. AList.update k (Header_Get (map_of meta) k) m) (map fst meta) hs"
    have a: "headers_after (DoAndGetResponseBody en c verb uri (Some hs) body) = Some ?hs'"
      using headers_after_sent [OF s] addMetaData_Some [OF m] by simp
    have b: "map_of ?hs' k
               = (if k \<in> fst ` set meta then Some (Header_Get (map_of meta) k) else map_of hs k)"
      for k
      by (simp add: map_of_fold_update)
    have "?hs' \<noteq> hs"
      if "k \<in> fst ` set meta" and "map_of hs k \<noteq> Some (Header_Get (map_of meta) k)" for k
    proof
      assume "?hs' = hs"
      then have "map_of ?hs' k = map_of hs k" by simp
      with b [of k] that show False by simp
    qed
    with a b show ?thesis by blast
  qed
  from 1 2 3 4 5 show ?thesis by blast
qed

text \<open>
  The theorem at an empty header map and a body whose metadata carries \<^verbatim>\<open>X-Array\<close>, and at
  the nil map for the same body.
\<close>

theorem C10_witness:
  "sent (DoAndGetResponseBody (sample_env res_ok_empty) sample_client ''POST'' ''/x''
           (Some []) (Value ''{}'' (Some meta_array))) \<noteq> []
   \<and> MetaData (Value ''{}'' (Some meta_array) :: string body) = Some meta_array
   \<and> (\<exists>hs'. headers_after (DoAndGetResponseBody (sample_env res_ok_empty) sample_client ''POST''
                  ''/x'' (Some []) (Value ''{}'' (Some meta_array))) = Some hs'
           \<and> map_of hs' ''X-Array'' = Some ''from-metadata''
           \<and> hs' \<noteq> [])
   \<and> headers_after (DoAndGetResponseBody (sample_env res_ok_empty) sample_client ''POST''
                  ''/x'' None (Value ''{}'' (Some meta_array))) = None"
proof -
  let ?D = "DoAndGetResponseBody (sample_env res_ok_empty) sample_client ''POST'' ''/x''
           (Some []) (Value ''{}'' (Some meta_array))"
  have 1: "sent ?D \<noteq> []"
    by (simp add: sample_defs)
  have 2: "MetaData (Value ''{}'' (Some meta_array) :: string body) = Some meta_array"
    by simp
  have get: "Header_Get (map_of meta_array) ''X-Array'' = ''from-metadata''"
    by (simp add: meta_array_def Header_Get_def canon_defs)
  have mem: "''X-Array'' \<in> fst ` set meta_array"
    by (simp add: meta_array_def)
  note C10 = C10_metadata_needs_header_map [where en = "sample_env res_ok_empty"
      and c = sample_client and verb = "''POST''" and uri = "''/x''" and hs = "[]"
      and body = "Value ''{}'' (Some meta_array)" and meta = meta_array]
  from C10 1 2 obtain hs' where
    a: "headers_after ?D = Some hs'"
    and b: "\<forall>k. map_of hs' k
              = (if k \<in> fst ` set meta_array then Some (Header_Get (map_of meta_array) k)
                 else map_of [] k)"
    and c: "(\<exists>k. k \<in> fst ` set meta_array
                  \<and> map_of [] k \<noteq> Some (Header_Get (map_of meta_array) k)) \<longrightarrow> hs' \<noteq> []"
    by blast
  have x: "map_of hs' ''X-Array'' = Some ''from-metadata''"
    using b mem get by simp
  have "hs' \<noteq> []"
    using c mem by auto
  moreover have "headers_after (DoAndGetResponseBody (sample_env res_ok_empty) sample_client ''POST''
                  ''/x'' None (Value ''{}'' (Some meta_array))) = None"
    using C10_metadata_needs_header_map [where en = "sample_env res_ok_empty"
      and c = sample_client and verb = "''POST''" and uri = "''/x''" and hs = "[]"
      and body = "Value ''{}'' (Some meta_array)" and meta = meta_array] by blast
  ultimately show ?thesis using 1 2 a x by blast
qed

end
